theory Spec2Isabelle
  imports Complex_Main "HOL-Library.Multiset" "HOL-Library.Word" "HOL-Library.Sublist"
begin

section \<open>Strings and numbers of the host language\<close>

text \<open>
  A TypeScript string is a sequence of 16-bit code units; \<open>length\<close> counts code units and
  \<open>includes\<close> searches for a contiguous run of them. ASCII literals of the source are written
  with \<open>js\<close>.
\<close>

type_synonym jsstring = "16 word list"

definition js :: "string \<Rightarrow> jsstring" where
  "js s = map of_char s"

text \<open>\<open>String.prototype.includes\<close>: does \<open>needle\<close> occur in \<open>hay\<close> at some position?\<close>

fun str_includes :: "jsstring \<Rightarrow> jsstring \<Rightarrow> bool" where
  "str_includes [] needle = (needle = [])"
| "str_includes (c # cs) needle = (prefix needle (c # cs) \<or> str_includes cs needle)"

text \<open>
  A number that may be \<open>NaN\<close>. \<open>new Date(s).getTime()\<close> is either a whole number of
  milliseconds or \<open>NaN\<close> (for a string that does not parse as a date); scores are integers
  (the response schema declares \<open>match_score\<close> as INTEGER).
\<close>

datatype number = NaN | Num int

text \<open>\<open>a !== b\<close> on numbers: \<open>NaN\<close> differs from everything, itself included.\<close>

fun strictNotEqual :: "number \<Rightarrow> number \<Rightarrow> bool" where
  "strictNotEqual (Num x) (Num y) = (x \<noteq> y)"
| "strictNotEqual _ _ = True"

text \<open>\<open>a - b\<close> on numbers: \<open>NaN\<close> is absorbing.\<close>

fun minus_number :: "number \<Rightarrow> number \<Rightarrow> number" where
  "minus_number (Num x) (Num y) = Num (x - y)"
| "minus_number _ _ = NaN"

text \<open>
  A number of the host that need not be whole: an IEEE 754 double. A finite double is a
  mantissa \<open>m\<close> below \<open>2 ^ 53\<close> in size and an exponent \<open>e\<close> from \<open>-1074\<close> to \<open>971\<close>, of
  value \<open>m * 2 ^ e\<close>; \<open>JSON.parse\<close> also yields the infinities (for \<open>1e999\<close>), and a missing
  field behaves as \<open>NaN\<close>.
\<close>

datatype double = Finite int int | PlusInfinity | MinusInfinity | NotANumber






section \<open>The job record (types.ts)\<close>

datatype EmploymentType = Permanent | Contract | UnknownEmployment

datatype SeniorityLevel = Junior | Mid | Senior | UnknownSeniority

record JobAlert =
  job_title :: jsstring
  company :: jsstring
  primary_role :: jsstring
  location :: jsstring
  employment_type :: EmploymentType
  seniority :: SeniorityLevel
  publish_date_utc :: jsstring
  job_age_hours :: double
  match_score :: int
  key_skills :: "jsstring list"
  source :: jsstring
  apply_url :: jsstring
  alert_message_en :: jsstring
  alert_message_sv :: jsstring

section \<open>Array.prototype.sort\<close>

text \<open>
  \<open>sort\<close> takes the comparator \<open>comparefn\<close>; a result \<open>NaN\<close> counts as \<open>0\<close>, a
  negative result puts the first argument first, a positive one the second. The sort is
  stable. It is modelled as a stable insertion sort: each element, from the last to the first,
  is placed in front of the first element of the already sorted rest that it does not have to
  follow. For a comparator that orders its arguments consistently every engine returns this
  list. For one that does not (it answers \<open>NaN\<close> for some pairs) the standard leaves the
  order to the engine, and the model is one such engine.
\<close>

fun sortCompare :: "('a \<Rightarrow> 'a \<Rightarrow> number) \<Rightarrow> 'a \<Rightarrow> 'a \<Rightarrow> int" where
  "sortCompare comparefn x y = (case comparefn x y of NaN \<Rightarrow> 0 | Num v \<Rightarrow> v)"

fun place :: "('a \<Rightarrow> 'a \<Rightarrow> number) \<Rightarrow> 'a \<Rightarrow> 'a list \<Rightarrow> 'a list" where
  "place comparefn x [] = [x]"
| "place comparefn x (y # ys) =
     (if 0 < sortCompare comparefn x y then y # place comparefn x ys else x # y # ys)"

definition array_sort :: "('a \<Rightarrow> 'a \<Rightarrow> number) \<Rightarrow> 'a list \<Rightarrow> 'a list" where
  "array_sort comparefn xs = foldr (place comparefn) xs []"

section \<open>The Record Reconciler (App.tsx, mergeAndSortJobs)\<close>

text \<open>
  The date parser of the host (\<open>new Date(s).getTime()\<close>) is the parameter \<open>getTime\<close>.
  The comparator is the arrow function passed to \<open>sort\<close>.
\<close>

definition compareJobs :: "(jsstring \<Rightarrow> number) \<Rightarrow> JobAlert \<Rightarrow> JobAlert \<Rightarrow> number" where
  "compareJobs getTime a b =
     (let dateA = getTime (publish_date_utc a);
          dateB = getTime (publish_date_utc b)
      in if strictNotEqual dateA dateB then minus_number dateB dateA
         else Num (match_score b - match_score a))"

definition mergeAndSortJobs ::
  "(jsstring \<Rightarrow> number) \<Rightarrow> JobAlert list \<Rightarrow> JobAlert list \<Rightarrow> JobAlert list" where
  "mergeAndSortJobs getTime newJobs currentJobs =
     (let allJobs = newJobs @ currentJobs in array_sort (compareJobs getTime) allJobs)"

text \<open>The order the specification asks of a pair: \<open>a\<close> may stand before \<open>b\<close>.\<close>

fun laterThan :: "number \<Rightarrow> number \<Rightarrow> bool" where
  "laterThan (Num x) (Num y) = (y < x)"
| "laterThan _ _ = False"

fun sameInstant :: "number \<Rightarrow> number \<Rightarrow> bool" where
  "sameInstant (Num x) (Num y) = (x = y)"
| "sameInstant _ _ = False"

definition mayPrecede :: "(jsstring \<Rightarrow> number) \<Rightarrow> JobAlert \<Rightarrow> JobAlert \<Rightarrow> bool" where
  "mayPrecede getTime a b =
     (laterThan (getTime (publish_date_utc a)) (getTime (publish_date_utc b))
      \<or> (sameInstant (getTime (publish_date_utc a)) (getTime (publish_date_utc b))
          \<and> match_score b \<le> match_score a))"

text \<open>Example data: a job that differs from \<open>blankJob\<close> in the fields a case is about.\<close>

definition blankJob :: JobAlert where
  "blankJob = \<lparr> job_title = [], company = [], primary_role = [], location = [],
      employment_type = UnknownEmployment, seniority = UnknownSeniority,
      publish_date_utc = [], job_age_hours = Finite 0 0, match_score = 0, key_skills = [],
      source = [], apply_url = [], alert_message_en = [], alert_message_sv = [] \<rparr>"

definition posted :: "string \<Rightarrow> int \<Rightarrow> JobAlert" where
  "posted d s = blankJob \<lparr> publish_date_utc := js d, match_score := s \<rparr>"

text \<open>
  A date parser for the examples: it agrees with \<open>Date\<close> on the three strings below
  (milliseconds since 1970) and answers \<open>NaN\<close> otherwise, as \<open>Date\<close> does for
  \<open>"Unknown"\<close>.
\<close>

definition exampleGetTime :: "jsstring \<Rightarrow> number" where
  "exampleGetTime s =
     (if s = js ''2024-05-01T00:00:00Z'' then Num 1714521600000
      else if s = js ''2024-05-02T00:00:00Z'' then Num 1714608000000
      else if s = js ''2024-05-03T00:00:00Z'' then Num 1714694400000
      else NaN)"

section \<open>encodeURIComponent and toLowerCase\<close>

text \<open>
  \<open>encodeURIComponent\<close> keeps the letters, the digits and the marks \<open>- _ . ! ~ * ' ( )\<close>;
  every other code point is written as the percent-escaped octets of its UTF-8 form. A
  surrogate code unit that is not part of a pair has no UTF-8 form: the function throws
  \<open>URIError\<close>, which is the result \<open>None\<close>.
\<close>

definition uriUnescaped :: "16 word \<Rightarrow> bool" where
  "uriUnescaped c =
     ((0x41 \<le> c \<and> c \<le> 0x5A) \<or> (0x61 \<le> c \<and> c \<le> 0x7A) \<or> (0x30 \<le> c \<and> c \<le> 0x39)
      \<or> c \<in> set [0x2D, 0x5F, 0x2E, 0x21, 0x7E, 0x2A, 0x27, 0x28, 0x29])"

definition hexDigit :: "nat \<Rightarrow> 16 word" where
  "hexDigit n = (if n < 10 then 0x30 + of_nat n else 0x41 + of_nat (n - 10))"

definition percentOctet :: "nat \<Rightarrow> jsstring" where
  "percentOctet b = [0x25, hexDigit (b div 16), hexDigit (b mod 16)]"

definition utf8 :: "nat \<Rightarrow> nat list" where
  "utf8 cp =
     (if cp < 0x80 then [cp]
      else if cp < 0x800 then [0xC0 + cp div 64, 0x80 + cp mod 64]
      else if cp < 0x10000 then [0xE0 + cp div 4096, 0x80 + cp div 64 mod 64, 0x80 + cp mod 64]
      else [0xF0 + cp div 262144, 0x80 + cp div 4096 mod 64, 0x80 + cp div 64 mod 64,
            0x80 + cp mod 64])"

definition escapeCodePoint :: "nat \<Rightarrow> jsstring" where
  "escapeCodePoint cp = concat (map percentOctet (utf8 cp))"

definition isLeadSurrogate :: "16 word \<Rightarrow> bool" where
  "isLeadSurrogate c = (0xD800 \<le> c \<and> c \<le> 0xDBFF)"

definition isTrailSurrogate :: "16 word \<Rightarrow> bool" where
  "isTrailSurrogate c = (0xDC00 \<le> c \<and> c \<le> 0xDFFF)"

definition pairCodePoint :: "16 word \<Rightarrow> 16 word \<Rightarrow> nat" where
  "pairCodePoint hi lo = 0x10000 + (unat hi - 0xD800) * 0x400 + (unat lo - 0xDC00)"

fun encodeURIComponent :: "jsstring \<Rightarrow> jsstring option" where
  "encodeURIComponent [] = Some []"
| "encodeURIComponent (c # cs) =
     (if uriUnescaped c then map_option ((#) c) (encodeURIComponent cs)
      else if isLeadSurrogate c then
        (case cs of
           [] \<Rightarrow> None
         | d # ds \<Rightarrow>
             if isTrailSurrogate d
             then map_option ((@) (escapeCodePoint (pairCodePoint c d))) (encodeURIComponent ds)
             else None)
      else if isTrailSurrogate c then None
      else map_option ((@) (escapeCodePoint (unat c))) (encodeURIComponent cs))"

text \<open>
  \<open>toLowerCase\<close> follows the Unicode case tables of the host; the resolver takes it as a
  parameter. \<open>asciiLower\<close> is its restriction to ASCII text, for the examples.
\<close>

definition asciiLower :: "jsstring \<Rightarrow> jsstring" where
  "asciiLower s = map (\<lambda>c. if 0x41 \<le> c \<and> c \<le> 0x5A then c + 0x20 else c) s"

section \<open>The Apply-Link Resolver (JobCard.tsx, handleApply)\<close>

text \<open>
  The result is the URL handed to \<open>window.open\<close>; \<open>None\<close> when \<open>encodeURIComponent\<close>
  throws, in which case no window is opened. \<open>job.location || 'Sweden'\<close> and
  \<open>job.source || ''\<close> replace an empty string.
\<close>

definition arbetsformedlingen :: jsstring where
  "arbetsformedlingen = js ''arbetsf'' @ [0xF6] @ js ''rmedlingen''"

definition handleApply :: "(jsstring \<Rightarrow> jsstring) \<Rightarrow> JobAlert \<Rightarrow> jsstring option" where
  "handleApply toLowerCase job =
     (let url = apply_url job in
      if url = [] \<or> length url < 5 \<or> str_includes url (js ''example.com'') then
        (case encodeURIComponent (job_title job @ js '' '' @ company job) of
           None \<Rightarrow> None
         | Some q \<Rightarrow>
        (case encodeURIComponent (if location job = [] then js ''Sweden'' else location job) of
           None \<Rightarrow> None
         | Some loc \<Rightarrow>
             let src = toLowerCase (if source job = [] then [] else source job) in
             if str_includes src (js ''linkedin'') then
               Some (js ''https://www.linkedin.com/jobs/search/?keywords='' @ q
                     @ js ''&location='' @ loc)
             else if str_includes src arbetsformedlingen \<or> str_includes src (js ''platsbanken'') then
               Some (js ''https://platsbanken.arbetsformedlingen.se/platsannonser/sok?q='' @ q)
             else if str_includes src (js ''indeed'') then
               Some (js ''https://se.indeed.com/jobs?q='' @ q @ js ''&l='' @ loc)
             else
               Some (js ''https://www.google.com/search?q='' @ q @ js ''+job+'' @ loc)))
      else Some url)"








text \<open>The condition under which the resolver builds a substitute URL.\<close>

definition fallbackTriggers :: "JobAlert \<Rightarrow> bool" where
  "fallbackTriggers job =
     (apply_url job = [] \<or> length (apply_url job) < 5
      \<or> str_includes (apply_url job) (js ''example.com''))"

definition advert :: "string \<Rightarrow> string \<Rightarrow> string \<Rightarrow> string \<Rightarrow> string \<Rightarrow> JobAlert" where
  "advert title employer loc src url =
     blankJob \<lparr> job_title := js title, company := js employer, location := js loc,
                source := js src, apply_url := js url \<rparr>"

section \<open>Score and age tiers (JobCard.tsx, getScoreColor and getAgeBadge)\<close>








section \<open>The collaborator call (geminiService.ts, scanJobs)\<close>

text \<open>
  What a \<open>throw\<close> carries: an \<open>Error\<close> object with its message, or some other value.
\<close>

datatype thrown = ErrorObject jsstring | OtherValue

datatype scan_mode = SIMULATE | ANALYZE

text \<open>
  What the code takes from its host: the credential \<open>process.env.API_KEY\<close>, the call
  \<open>ai.models.generateContent\<close> (it throws, or answers with a response whose \<open>text\<close>
  may be undefined), \<open>JSON.parse\<close> followed by the unchecked cast to \<open>JobAlert[]\<close>,
  the date parser, the printing of a score in a template literal (\<open>Number::toString\<close>:
  decimal digits, exponent form from \<open>10 ^ 21\<close> on), and the clock: \<open>hostClock h k\<close> is
  the formatted time at the \<open>k\<close>-th log line of a handler run.
\<close>

record Host =
  hostApiKey :: "jsstring option"
  hostGenerateContent :: "scan_mode \<Rightarrow> jsstring option \<Rightarrow> thrown + jsstring option"
  hostParse :: "jsstring \<Rightarrow> thrown + JobAlert list"
  hostGetTime :: "jsstring \<Rightarrow> number"
  hostToString :: "int \<Rightarrow> jsstring"
  hostClock :: "nat \<Rightarrow> jsstring"

text \<open>
  The \<open>catch\<close> of \<open>scanJobs\<close> writes to the console and throws the same value again.
\<close>

definition scanJobs :: "Host \<Rightarrow> scan_mode \<Rightarrow> jsstring option \<Rightarrow> thrown + JobAlert list" where
  "scanJobs host mode inputText =
     (if hostApiKey host = None \<or> hostApiKey host = Some []
      then Inl (ErrorObject (js ''API Key is missing''))
      else
        (case hostGenerateContent host mode inputText of
           Inl error \<Rightarrow> Inl error
         | Inr None \<Rightarrow> Inr []
         | Inr (Some text) \<Rightarrow>
             if text = [] then Inr []
             else
               (case hostParse host text of
                  Inl error \<Rightarrow> Inl error
                | Inr data \<Rightarrow> Inr data)))"

section \<open>The session state and its handlers (App.tsx)\<close>

datatype tab = Feed | Analyze

text \<open>
  The five state variables of the component, the messages shown by \<open>alert\<close>, and a count of
  the calls of \<open>scanJobs\<close> made so far.
\<close>

record Session =
  jobs :: "JobAlert list"
  isScanning :: bool
  activeTab :: tab
  analyzeText :: jsstring
  logs :: "jsstring list"
  alerts :: "jsstring list"
  invocations :: nat

definition addLog :: "jsstring \<Rightarrow> jsstring \<Rightarrow> Session \<Rightarrow> Session" where
  "addLog timestamp message s =
     s \<lparr> logs := (js ''['' @ timestamp @ js ''] '' @ message) # take 49 (logs s) \<rparr>"

fun errorMessage :: "thrown \<Rightarrow> jsstring" where
  "errorMessage (ErrorObject message) = message"
| "errorMessage OtherValue = js ''Unknown error''"

text \<open>
  The length of an array in a template literal: its decimal digits (a length is below
  \<open>2 ^ 32\<close>).
\<close>

function decimal :: "nat \<Rightarrow> jsstring" where
  "decimal n = (if n < 10 then [0x30 + of_nat n]
                else decimal (n div 10) @ [0x30 + of_nat (n mod 10)])"
  by pat_completeness auto
termination
  by (relation "measure id") auto

declare decimal.simps [simp del]

text \<open>\<open>String.prototype.trim\<close> removes white space and line terminators at both ends.\<close>

definition isWhiteSpace :: "16 word \<Rightarrow> bool" where
  "isWhiteSpace c =
     (c \<in> set [0x09, 0x0A, 0x0B, 0x0C, 0x0D, 0x20, 0xA0, 0x1680, 0x2028, 0x2029, 0x202F,
                0x205F, 0x3000, 0xFEFF]
      \<or> (0x2000 \<le> c \<and> c \<le> 0x200A))"

definition trim :: "jsstring \<Rightarrow> jsstring" where
  "trim s = rev (dropWhile isWhiteSpace (rev (dropWhile isWhiteSpace s)))"

definition handleSimulateScan :: "Host \<Rightarrow> Session \<Rightarrow> Session" where
  "handleSimulateScan host s =
     (if hostApiKey host = None \<or> hostApiKey host = Some [] then
        s \<lparr> alerts := alerts s @ [js ''Please set your API_KEY in the environment variables.''] \<rparr>
      else
        let s1 = s \<lparr> isScanning := True \<rparr>;
            s2 = addLog (hostClock host 0) (js ''Initiating market scan for current month...'') s1;
            s3 = addLog (hostClock host 1)
                   (js ''Targeting sources: Platsbanken, LinkedIn, Indeed...'') s2;
            s4 = s3 \<lparr> invocations := Suc (invocations s3) \<rparr>;
            s5 = (case scanJobs host SIMULATE None of
                    Inr results \<Rightarrow>
                      if 0 < length results then
                        addLog (hostClock host 2)
                          (js ''Scan complete. Discovered '' @ decimal (length results)
                           @ js '' valid matches from current month.'')
                          (s4 \<lparr> jobs := mergeAndSortJobs (hostGetTime host) results (jobs s4) \<rparr>)
                      else
                        addLog (hostClock host 2)
                          (js ''Scan complete. No matches found within current month window.'') s4
                  | Inl error \<Rightarrow>
                      addLog (hostClock host 2)
                        (js ''ERR: Scan failed. '' @ errorMessage error) s4)
        in s5 \<lparr> isScanning := False \<rparr>)"

definition handleAnalyzeText :: "Host \<Rightarrow> Session \<Rightarrow> Session" where
  "handleAnalyzeText host s =
     (if trim (analyzeText s) = [] then s
      else
        let s1 = s \<lparr> isScanning := True \<rparr>;
            s2 = addLog (hostClock host 0) (js ''Analyzing raw job description...'') s1;
            s3 = s2 \<lparr> invocations := Suc (invocations s2) \<rparr>;
            s4 = (case scanJobs host ANALYZE (Some (analyzeText s)) of
                    Inr results \<Rightarrow>
                      (case results of
                         first # _ \<Rightarrow>
                           (addLog (hostClock host 1)
                              (js ''Analysis complete. Role qualified with score ''
                               @ hostToString host (match_score first) @ js ''.'')
                              (s3 \<lparr> jobs := mergeAndSortJobs (hostGetTime host) results (jobs s3) \<rparr>))
                           \<lparr> analyzeText := [], activeTab := Feed \<rparr>
                       | [] \<Rightarrow>
                           addLog (hostClock host 1)
                             (js ''Analysis complete. Role rejected (Score < 60 or Non-Sweden/Old).'')
                             s3)
                  | Inl error \<Rightarrow>
                      addLog (hostClock host 1)
                        (js ''ERR: Analysis failed. '' @ errorMessage error) s3)
        in s4 \<lparr> isScanning := False \<rparr>)"

text \<open>
  Example hosts. \<open>exampleParse\<close> agrees with \<open>JSON.parse\<close> on the texts used below: \<open>[]\<close>
  is the empty array, the empty text and \<open>[\<close> are not JSON. \<open>exampleToString\<close> prints
  a whole number as the host does below \<open>10 ^ 21\<close>. \<open>exampleHost reply\<close> has a credential
  and a collaborator that always answers \<open>reply\<close>.
\<close>

definition exampleToString :: "int \<Rightarrow> jsstring" where
  "exampleToString i = (if i < 0 then js ''-'' @ decimal (nat (- i)) else decimal (nat i))"

definition exampleParse :: "jsstring \<Rightarrow> thrown + JobAlert list" where
  "exampleParse text =
     (if text = js ''[]'' then Inr [] else Inl (ErrorObject (js ''Unexpected end of JSON input'')))"

definition exampleHost :: "thrown + jsstring option \<Rightarrow> Host" where
  "exampleHost reply =
     \<lparr> hostApiKey = Some (js ''key''), hostGenerateContent = (\<lambda>mode inputText. reply),
       hostParse = exampleParse, hostGetTime = exampleGetTime,
       hostToString = exampleToString, hostClock = (\<lambda>k. js ''12:00:00'') \<rparr>"

definition idleSession :: Session where
  "idleSession = \<lparr> jobs = [posted ''2024-05-01T00:00:00Z'' 90], isScanning = False,
      activeTab = Feed, analyzeText = [], logs = [], alerts = [], invocations = 0 \<rparr>"

section \<open>Ordering and completeness of the reconciled collection\<close>

lemma mset_place: "mset (place cf x ys) = add_mset x (mset ys)"
  by (induction ys) simp_all

lemma mset_array_sort: "mset (array_sort cf xs) = mset xs"
  unfolding array_sort_def by (induction xs) (simp_all add: mset_place)

lemma set_place: "set (place cf x ys) = insert x (set ys)"
  by (induction ys) auto

lemma set_array_sort: "set (array_sort cf xs) = set xs"
  unfolding array_sort_def by (induction xs) (simp_all add: set_place)

text \<open>
  Placing an element keeps a list ordered by \<open>R\<close>, when \<open>R\<close> is transitive and agrees with
  the comparator on the elements at hand.
\<close>

lemma place_sorted:
  assumes gt: "\<And>y. y \<in> set ys \<Longrightarrow> 0 < sortCompare cf x y \<Longrightarrow> R y x"
      and le: "\<And>y. y \<in> set ys \<Longrightarrow> \<not> 0 < sortCompare cf x y \<Longrightarrow> R x y"
      and tr: "\<And>a b c. R a b \<Longrightarrow> R b c \<Longrightarrow> R a c"
      and s: "sorted_wrt R ys"
  shows "sorted_wrt R (place cf x ys)"
  using gt le s
proof (induction ys)
  case Nil
  then show ?case by simp
next
  case (Cons y ys)
  have below: "\<forall>z\<in>set ys. R y z" using Cons.prems(3) by simp
  show ?case
  proof (cases "0 < sortCompare cf x y")
    case True
    have "sorted_wrt R (place cf x ys)" using Cons.prems by (intro Cons.IH) auto
    moreover have "R y x" using Cons.prems(1)[of y] True by simp
    ultimately show ?thesis using True below by (simp add: set_place)
  next
    case False
    have "R x y" using Cons.prems(2)[of y] False by simp
    then show ?thesis using False below Cons.prems(3) tr by auto
  qed
qed

lemma mayPrecede_trans:
  "mayPrecede g a b \<Longrightarrow> mayPrecede g b c \<Longrightarrow> mayPrecede g a c"
  unfolding mayPrecede_def
  by (cases "g (publish_date_utc a)"; cases "g (publish_date_utc b)"; cases "g (publish_date_utc c)")
     auto

lemma compareJobs_gt:
  assumes "g (publish_date_utc a) \<noteq> NaN" "g (publish_date_utc b) \<noteq> NaN"
      and "0 < sortCompare (compareJobs g) a b"
  shows "mayPrecede g b a"
  using assms unfolding mayPrecede_def compareJobs_def
  by (cases "g (publish_date_utc a)"; cases "g (publish_date_utc b)")
     (auto simp: Let_def split: if_splits)

lemma compareJobs_le:
  assumes "g (publish_date_utc a) \<noteq> NaN" "g (publish_date_utc b) \<noteq> NaN"
      and "\<not> 0 < sortCompare (compareJobs g) a b"
  shows "mayPrecede g a b"
  using assms unfolding mayPrecede_def compareJobs_def
  by (cases "g (publish_date_utc a)"; cases "g (publish_date_utc b)")
     (auto simp: Let_def split: if_splits)

lemma array_sort_jobs_sorted:
  assumes "\<forall>j\<in>set xs. g (publish_date_utc j) \<noteq> NaN"
  shows "sorted_wrt (mayPrecede g) (array_sort (compareJobs g) xs)"
  using assms
proof (induction xs)
  case Nil
  then show ?case by (simp add: array_sort_def)
next
  case (Cons x xs)
  have rest: "sorted_wrt (mayPrecede g) (array_sort (compareJobs g) xs)"
    using Cons by simp
  have valid: "\<forall>y\<in>set (array_sort (compareJobs g) xs). g (publish_date_utc y) \<noteq> NaN"
    using Cons.prems by (simp add: set_array_sort)
  have vx: "g (publish_date_utc x) \<noteq> NaN" using Cons.prems by simp
  have "sorted_wrt (mayPrecede g) (place (compareJobs g) x (array_sort (compareJobs g) xs))"
  proof (rule place_sorted)
    fix y assume "y \<in> set (array_sort (compareJobs g) xs)" "0 < sortCompare (compareJobs g) x y"
    then show "mayPrecede g y x" using compareJobs_gt vx valid by blast
  next
    fix y assume "y \<in> set (array_sort (compareJobs g) xs)" "\<not> 0 < sortCompare (compareJobs g) x y"
    then show "mayPrecede g x y" using compareJobs_le vx valid by blast
  next
    fix a b c assume "mayPrecede g a b" "mayPrecede g b c"
    then show "mayPrecede g a c" by (rule mayPrecede_trans)
  next
    show "sorted_wrt (mayPrecede g) (array_sort (compareJobs g) xs)" by (rule rest)
  qed
  then show ?case by (simp add: array_sort_def)
qed

lemma mayPrecede_not_later:
  "mayPrecede g a b \<Longrightarrow> \<not> laterThan (g (publish_date_utc b)) (g (publish_date_utc a))"
  unfolding mayPrecede_def
  by (cases "g (publish_date_utc a)"; cases "g (publish_date_utc b)") auto

lemma laterThan_irrefl: "\<not> laterThan t t"
  by (cases t) auto

text \<open>
  When the publish date of every record of both inputs parses to an instant, the reconciled
  sequence is ordered: of two records, the one that stands first has the later instant, or the
  same instant and a score at least as high; and a record with a strictly later instant stands
  before every record with an earlier one, whatever their scores.
\<close>

theorem reconciled_order:
  assumes "\<forall>j\<in>set (newJobs @ currentJobs). getTime (publish_date_utc j) \<noteq> NaN"
  shows "(\<forall>i k. i < k \<and> k < length (mergeAndSortJobs getTime newJobs currentJobs) \<longrightarrow>
            mayPrecede getTime (mergeAndSortJobs getTime newJobs currentJobs ! i)
                               (mergeAndSortJobs getTime newJobs currentJobs ! k))
       \<and> (\<forall>i k. i < length (mergeAndSortJobs getTime newJobs currentJobs)
              \<and> k < length (mergeAndSortJobs getTime newJobs currentJobs)
              \<and> laterThan (getTime (publish_date_utc (mergeAndSortJobs getTime newJobs currentJobs ! i)))
                          (getTime (publish_date_utc (mergeAndSortJobs getTime newJobs currentJobs ! k)))
              \<longrightarrow> i < k)"
proof -
  define out where "out = mergeAndSortJobs getTime newJobs currentJobs"
  have srt: "sorted_wrt (mayPrecede getTime) out"
    unfolding out_def mergeAndSortJobs_def Let_def
    using assms by (rule array_sort_jobs_sorted)
  have pairs: "\<And>i k. i < k \<Longrightarrow> k < length out \<Longrightarrow> mayPrecede getTime (out ! i) (out ! k)"
    using srt by (simp add: sorted_wrt_iff_nth_less)
  have fresh: "i < k" if "i < length out" "k < length out"
      "laterThan (getTime (publish_date_utc (out ! i))) (getTime (publish_date_utc (out ! k)))" for i k
  proof (rule ccontr)
    assume "\<not> i < k"
    then consider "k < i" | "k = i" by linarith
    then show False
    proof cases
      case 1
      then have "mayPrecede getTime (out ! k) (out ! i)" using pairs that(1) by simp
      then show False using that(3) mayPrecede_not_later by blast
    next
      case 2
      then show False using that(3) laterThan_irrefl by simp
    qed
  qed
  show ?thesis using pairs fresh unfolding out_def by blast
qed

theorem reconciled_order_witness:
  "mergeAndSortJobs exampleGetTime
      [posted ''2024-05-01T00:00:00Z'' 90, posted ''2024-05-03T00:00:00Z'' 60]
      [posted ''2024-05-02T00:00:00Z'' 70, posted ''2024-05-03T00:00:00Z'' 80]
    = [posted ''2024-05-03T00:00:00Z'' 80, posted ''2024-05-03T00:00:00Z'' 60,
       posted ''2024-05-02T00:00:00Z'' 70, posted ''2024-05-01T00:00:00Z'' 90]
   \<and> mayPrecede exampleGetTime (posted ''2024-05-02T00:00:00Z'' 70) (posted ''2024-05-01T00:00:00Z'' 90)"
proof -
  let ?new = "[posted ''2024-05-01T00:00:00Z'' 90, posted ''2024-05-03T00:00:00Z'' 60]"
  let ?cur = "[posted ''2024-05-02T00:00:00Z'' 70, posted ''2024-05-03T00:00:00Z'' 80]"
  have valid: "\<forall>j\<in>set (?new @ ?cur). exampleGetTime (publish_date_utc j) \<noteq> NaN"
    by (simp add: posted_def blankJob_def exampleGetTime_def js_def)
  have out: "mergeAndSortJobs exampleGetTime ?new ?cur
    = [posted ''2024-05-03T00:00:00Z'' 80, posted ''2024-05-03T00:00:00Z'' 60,
       posted ''2024-05-02T00:00:00Z'' 70, posted ''2024-05-01T00:00:00Z'' 90]"
    by (simp add: mergeAndSortJobs_def array_sort_def compareJobs_def posted_def blankJob_def
        exampleGetTime_def js_def)
  have len: "(2::nat) < 3 \<and> 3 < length (mergeAndSortJobs exampleGetTime ?new ?cur)"
    by (simp add: out)
  have "mayPrecede exampleGetTime (mergeAndSortJobs exampleGetTime ?new ?cur ! 2)
          (mergeAndSortJobs exampleGetTime ?new ?cur ! 3)"
    using reconciled_order [OF valid] len by blast
  then show ?thesis by (simp add: out)
qed

text \<open>
  C1. The order does not hold on every input: one publish date that does not parse is enough to
  leave two records with proper dates in the wrong order. The comparator has no case for
  \<open>NaN\<close>: it answers \<open>NaN\<close> for every pair that involves the record without an instant,
  \<open>sort\<close> reads that as "equal", and the three records below stay as they were concatenated.
  The record of 1 May with score 90 then stands before the fresher record of 2 May with score
  10, against the comparator's own comment ("Newer jobs first"); and the record without an
  instant stands next to records that it may neither precede nor follow.
\<close>

theorem reconciled_order_unparsable_date:
  "mergeAndSortJobs exampleGetTime
      [posted ''2024-05-01T00:00:00Z'' 90, posted ''Unknown'' 50]
      [posted ''2024-05-02T00:00:00Z'' 10]
     = [posted ''2024-05-01T00:00:00Z'' 90, posted ''Unknown'' 50,
        posted ''2024-05-02T00:00:00Z'' 10]
   \<and> \<not> mayPrecede exampleGetTime (posted ''2024-05-01T00:00:00Z'' 90)
                                   (posted ''2024-05-02T00:00:00Z'' 10)
   \<and> \<not> mayPrecede exampleGetTime (posted ''2024-05-01T00:00:00Z'' 90) (posted ''Unknown'' 50)
   \<and> \<not> mayPrecede exampleGetTime (posted ''Unknown'' 50) (posted ''2024-05-01T00:00:00Z'' 90)
   \<and> \<not> mayPrecede exampleGetTime (posted ''Unknown'' 50) (posted ''2024-05-02T00:00:00Z'' 10)
   \<and> \<not> mayPrecede exampleGetTime (posted ''2024-05-02T00:00:00Z'' 10) (posted ''Unknown'' 50)"
  by (simp add: mergeAndSortJobs_def array_sort_def compareJobs_def posted_def blankJob_def
        exampleGetTime_def js_def mayPrecede_def)

text \<open>
  C2. For any two input sequences, empty ones included, the reconciled sequence has as many
  records as both inputs together and holds exactly the records of both, each as often as it
  occurs in them: nothing is dropped, changed or de-duplicated.
\<close>

theorem reconciled_union:
  "length (mergeAndSortJobs getTime incoming existing) = length incoming + length existing
   \<and> mset (mergeAndSortJobs getTime incoming existing) = mset incoming + mset existing"
proof -
  have m: "mset (mergeAndSortJobs getTime incoming existing) = mset incoming + mset existing"
    by (simp add: mergeAndSortJobs_def mset_array_sort)
  have "length (mergeAndSortJobs getTime incoming existing)
          = size (mset (mergeAndSortJobs getTime incoming existing))"
    by simp
  also have "\<dots> = size (mset incoming + mset existing)"
    by (simp only: m)
  also have "\<dots> = length incoming + length existing"
    by simp
  finally show ?thesis using m by simp
qed

section \<open>The resolver: pass-through, fallback, totality\<close>

lemma str_includes_sublist: "str_includes hay needle = sublist needle hay"
  by (induction hay) (simp_all add: sublist_Cons_right)

text \<open>
  C3. A job whose \<open>apply_url\<close> is non-empty, has at least 5 code units and does not contain
  \<open>example.com\<close> resolves to that \<open>apply_url\<close>, unchanged; the fields the fallback is built
  from (title, company, location, source) have no influence on the result.
\<close>

theorem trusted_passthrough:
  assumes "apply_url job \<noteq> []"
      and "5 \<le> length (apply_url job)"
      and "\<not> str_includes (apply_url job) (js ''example.com'')"
  shows "handleApply toLowerCase job = Some (apply_url job)
       \<and> handleApply toLowerCase
            (job \<lparr> job_title := t, company := c, location := l, source := s \<rparr>)
          = Some (apply_url job)"
  using assms by (simp add: handleApply_def)

theorem trusted_passthrough_witness:
  "handleApply asciiLower
     (advert ''Data Engineer'' ''Acme'' ''Stockholm'' ''LinkedIn'' ''https://company.example/apply/123'')
   = Some (js ''https://company.example/apply/123'')"
proof -
  let ?job = "advert ''Data Engineer'' ''Acme'' ''Stockholm'' ''LinkedIn'' ''https://company.example/apply/123''"
  have u: "apply_url ?job = js ''https://company.example/apply/123''"
    by (simp add: advert_def)
  have a: "apply_url ?job \<noteq> []" by (simp add: u js_def)
  have b: "5 \<le> length (apply_url ?job)" by (simp add: u js_def)
  have c: "\<not> str_includes (apply_url ?job) (js ''example.com'')" by (simp add: u js_def)
  show ?thesis using trusted_passthrough [OF a b c, of asciiLower] u by simp
qed

text \<open>
  When the fallback triggers, and \<open>q\<close> is the URL-encoded "title company" and \<open>loc\<close> the
  URL-encoded location (or \<open>Sweden\<close> for an empty location), the lower-cased source decides,
  in this order: \<open>linkedin\<close> gives the LinkedIn search with \<open>q\<close> and \<open>loc\<close>; the name
  of the Swedish employment service (\<open>arbetsformedlingen\<close>, spelt with its umlaut) or
  \<open>platsbanken\<close> gives the Platsbanken search with \<open>q\<close> alone; \<open>indeed\<close> gives the Indeed
  Sweden search with \<open>q\<close> and \<open>loc\<close>; anything else gives the web search for
  \<open>q+job+loc\<close>.
\<close>

theorem fallback_by_source:
  assumes trig: "fallbackTriggers job"
      and q: "encodeURIComponent (job_title job @ js '' '' @ company job) = Some q"
      and loc: "encodeURIComponent (if location job = [] then js ''Sweden'' else location job) = Some loc"
  shows "(str_includes (toLowerCase (source job)) (js ''linkedin'') \<longrightarrow>
            handleApply toLowerCase job
              = Some (js ''https://www.linkedin.com/jobs/search/?keywords='' @ q
                      @ js ''&location='' @ loc))
       \<and> (\<not> str_includes (toLowerCase (source job)) (js ''linkedin'')
            \<and> (str_includes (toLowerCase (source job)) arbetsformedlingen
                \<or> str_includes (toLowerCase (source job)) (js ''platsbanken'')) \<longrightarrow>
            handleApply toLowerCase job
              = Some (js ''https://platsbanken.arbetsformedlingen.se/platsannonser/sok?q='' @ q))
       \<and> (\<not> str_includes (toLowerCase (source job)) (js ''linkedin'')
            \<and> \<not> str_includes (toLowerCase (source job)) arbetsformedlingen
            \<and> \<not> str_includes (toLowerCase (source job)) (js ''platsbanken'')
            \<and> str_includes (toLowerCase (source job)) (js ''indeed'') \<longrightarrow>
            handleApply toLowerCase job
              = Some (js ''https://se.indeed.com/jobs?q='' @ q @ js ''&l='' @ loc))
       \<and> (\<not> str_includes (toLowerCase (source job)) (js ''linkedin'')
            \<and> \<not> str_includes (toLowerCase (source job)) arbetsformedlingen
            \<and> \<not> str_includes (toLowerCase (source job)) (js ''platsbanken'')
            \<and> \<not> str_includes (toLowerCase (source job)) (js ''indeed'') \<longrightarrow>
            handleApply toLowerCase job
              = Some (js ''https://www.google.com/search?q='' @ q @ js ''+job+'' @ loc))"
proof -
  have cond: "(apply_url job = [] \<or> length (apply_url job) < 5
                 \<or> str_includes (apply_url job) (js ''example.com'')) = True"
    using trig by (simp add: fallbackTriggers_def)
  show ?thesis
    unfolding handleApply_def Let_def cond using q loc by simp
qed

lemmas encode_eval = js_def uriUnescaped_def isLeadSurrogate_def isTrailSurrogate_def
  escapeCodePoint_def utf8_def percentOctet_def hexDigit_def

lemma encode_query_example:
  "encodeURIComponent (js ''Data Engineer'' @ js '' '' @ js ''Acme'') = Some (js ''Data%20Engineer%20Acme'')"
  by (simp add: encode_eval)

lemma encode_location_examples:
  "encodeURIComponent (js ''Stockholm'') = Some (js ''Stockholm'')"
  "encodeURIComponent (js ''Sweden'') = Some (js ''Sweden'')"
  by (simp_all add: encode_eval)

theorem fallback_by_source_witness:
  "handleApply asciiLower (advert ''Data Engineer'' ''Acme'' ''Stockholm'' ''LinkedIn'' '''')
     = Some (js ''https://www.linkedin.com/jobs/search/?keywords=Data%20Engineer%20Acme&location=Stockholm'')
   \<and> handleApply asciiLower (advert ''Data Engineer'' ''Acme'' ''Stockholm'' ''Platsbanken'' ''n/a'')
     = Some (js ''https://platsbanken.arbetsformedlingen.se/platsannonser/sok?q=Data%20Engineer%20Acme'')
   \<and> handleApply asciiLower
       (advert ''Data Engineer'' ''Acme'' ''Stockholm'' ''Indeed SE'' ''https://example.com/job/1'')
     = Some (js ''https://se.indeed.com/jobs?q=Data%20Engineer%20Acme&l=Stockholm'')
   \<and> handleApply asciiLower
       (advert ''Data Engineer'' ''Acme'' '''' ''Unknown Board'' ''https://example.com/x'')
     = Some (js ''https://www.google.com/search?q=Data%20Engineer%20Acme+job+Sweden'')"
proof -
  let ?a = "advert ''Data Engineer'' ''Acme'' ''Stockholm'' ''LinkedIn'' ''''"
  let ?b = "advert ''Data Engineer'' ''Acme'' ''Stockholm'' ''Platsbanken'' ''n/a''"
  let ?c = "advert ''Data Engineer'' ''Acme'' ''Stockholm'' ''Indeed SE'' ''https://example.com/job/1''"
  let ?d = "advert ''Data Engineer'' ''Acme'' '''' ''Unknown Board'' ''https://example.com/x''"
  have trig: "fallbackTriggers ?a" "fallbackTriggers ?b" "fallbackTriggers ?c" "fallbackTriggers ?d"
    by (simp_all add: fallbackTriggers_def advert_def js_def)
  have q: "encodeURIComponent (job_title ?a @ js '' '' @ company ?a) = Some (js ''Data%20Engineer%20Acme'')"
    "encodeURIComponent (job_title ?b @ js '' '' @ company ?b) = Some (js ''Data%20Engineer%20Acme'')"
    "encodeURIComponent (job_title ?c @ js '' '' @ company ?c) = Some (js ''Data%20Engineer%20Acme'')"
    "encodeURIComponent (job_title ?d @ js '' '' @ company ?d) = Some (js ''Data%20Engineer%20Acme'')"
    by (simp_all add: advert_def encode_query_example)
  have nonempty: "js ''Stockholm'' \<noteq> []" by (simp add: js_def)
  have loc: "encodeURIComponent (if location ?a = [] then js ''Sweden'' else location ?a) = Some (js ''Stockholm'')"
    "encodeURIComponent (if location ?b = [] then js ''Sweden'' else location ?b) = Some (js ''Stockholm'')"
    "encodeURIComponent (if location ?c = [] then js ''Sweden'' else location ?c) = Some (js ''Stockholm'')"
    "encodeURIComponent (if location ?d = [] then js ''Sweden'' else location ?d) = Some (js ''Sweden'')"
    using nonempty by (simp_all add: advert_def encode_location_examples) (simp add: js_def)
  have src: "str_includes (asciiLower (source ?a)) (js ''linkedin'')"
    "\<not> str_includes (asciiLower (source ?b)) (js ''linkedin'')"
    "str_includes (asciiLower (source ?b)) (js ''platsbanken'')"
    "\<not> str_includes (asciiLower (source ?c)) (js ''linkedin'')"
    "\<not> str_includes (asciiLower (source ?c)) arbetsformedlingen"
    "\<not> str_includes (asciiLower (source ?c)) (js ''platsbanken'')"
    "str_includes (asciiLower (source ?c)) (js ''indeed'')"
    "\<not> str_includes (asciiLower (source ?d)) (js ''linkedin'')"
    "\<not> str_includes (asciiLower (source ?d)) arbetsformedlingen"
    "\<not> str_includes (asciiLower (source ?d)) (js ''platsbanken'')"
    "\<not> str_includes (asciiLower (source ?d)) (js ''indeed'')"
    by (simp_all add: advert_def js_def asciiLower_def arbetsformedlingen_def)
  have "handleApply asciiLower ?a
     = Some (js ''https://www.linkedin.com/jobs/search/?keywords='' @ js ''Data%20Engineer%20Acme''
             @ js ''&location='' @ js ''Stockholm'')"
    using fallback_by_source [OF trig(1) q(1) loc(1), of asciiLower] src by blast
  moreover have "handleApply asciiLower ?b
     = Some (js ''https://platsbanken.arbetsformedlingen.se/platsannonser/sok?q=''
             @ js ''Data%20Engineer%20Acme'')"
    using fallback_by_source [OF trig(2) q(2) loc(2), of asciiLower] src by blast
  moreover have "handleApply asciiLower ?c
     = Some (js ''https://se.indeed.com/jobs?q='' @ js ''Data%20Engineer%20Acme'' @ js ''&l=''
             @ js ''Stockholm'')"
    using fallback_by_source [OF trig(3) q(3) loc(3), of asciiLower] src by blast
  moreover have "handleApply asciiLower ?d
     = Some (js ''https://www.google.com/search?q='' @ js ''Data%20Engineer%20Acme'' @ js ''+job+''
             @ js ''Sweden'')"
    using fallback_by_source [OF trig(4) q(4) loc(4), of asciiLower] src by blast
  ultimately show ?thesis by (simp add: js_def)
qed

text \<open>
  C4. The fallback does not build a URL for every job: \<open>encodeURIComponent\<close> is called on
  title, company and location before the source is looked at, and it throws on a surrogate
  code unit without its partner. For the job below the fallback triggers and the source
  contains \<open>linkedin\<close>, yet no URL results and no window is opened, against the comment
  "This guarantees the button ALWAYS works".
\<close>

theorem fallback_throws_on_unpaired_surrogate:
  "fallbackTriggers
     (blankJob \<lparr> job_title := [0xD800], company := js ''Acme'', location := js ''Stockholm'',
                 source := js ''LinkedIn'' \<rparr>)
   \<and> str_includes
       (asciiLower (source
          (blankJob \<lparr> job_title := [0xD800], company := js ''Acme'', location := js ''Stockholm'',
                      source := js ''LinkedIn'' \<rparr>)))
       (js ''linkedin'')
   \<and> handleApply asciiLower
       (blankJob \<lparr> job_title := [0xD800], company := js ''Acme'', location := js ''Stockholm'',
                   source := js ''LinkedIn'' \<rparr>)
     = None"
  by (simp add: fallbackTriggers_def handleApply_def blankJob_def js_def asciiLower_def
      uriUnescaped_def isLeadSurrogate_def isTrailSurrogate_def)





















section \<open>Score and age tiers\<close>















section \<open>The status log and the handlers\<close>

text \<open>
  C7. The log is kept newest first. Adding an entry to a log of at most 50 entries gives a log
  of at most 50 entries whose first entry is the new one and whose rest are the previous
  entries from the newest on: all of them if there were fewer than 50, all but the oldest
  if there were 50.
\<close>

theorem status_log_bounded:
  assumes "length (logs s) \<le> 50"
  shows "length (logs (addLog timestamp message s)) \<le> 50
       \<and> logs (addLog timestamp message s)
           = (js ''['' @ timestamp @ js ''] '' @ message) # take 49 (logs s)
       \<and> (js ''['' @ timestamp @ js ''] '' @ message) \<in> set (logs (addLog timestamp message s))
       \<and> (length (logs s) < 50 \<longrightarrow> tl (logs (addLog timestamp message s)) = logs s)
       \<and> (length (logs s) = 50 \<longrightarrow> tl (logs (addLog timestamp message s)) = butlast (logs s))"
proof -
  have "take 49 (logs s) = butlast (logs s)" if "length (logs s) = 50"
    using that by (simp add: butlast_conv_take)
  then show ?thesis using assms by (simp add: addLog_def)
qed

theorem status_log_bounded_witness:
  "logs (addLog (js ''12:00:00'') (js ''new'')
          (idleSession \<lparr> logs := replicate 50 (js ''old'') \<rparr>))
     = js ''[12:00:00] new'' # replicate 49 (js ''old'')
   \<and> logs (addLog (js ''12:00:00'') (js ''new'') (idleSession \<lparr> logs := [js ''old''] \<rparr>))
     = [js ''[12:00:00] new'', js ''old'']"
proof -
  let ?full = "idleSession \<lparr> logs := replicate 50 (js ''old'') \<rparr>"
  let ?one = "idleSession \<lparr> logs := [js ''old''] \<rparr>"
  have a: "length (logs ?full) \<le> 50" by simp
  have b: "length (logs ?one) \<le> 50" by simp
  have t: "take 49 (replicate 50 (js ''old'')) = replicate 49 (js ''old'')" by simp
  show ?thesis
    using status_log_bounded [OF a, of "js ''12:00:00''" "js ''new''"]
      status_log_bounded [OF b, of "js ''12:00:00''" "js ''new''"] t
    by (simp add: js_def)
qed

lemmas session_eval = exampleHost_def idleSession_def scanJobs_def exampleParse_def

text \<open>
  C8. When \<open>scanJobs\<close> throws \<open>e\<close>, either handler ends in the session it started from
  except for three things: the busy flag is off, \<open>scanJobs\<close> has been called once more
  (once, so no retry), and the log holds one more line after the start lines, the line
  \<open>ERR: \<dots> failed.\<close> with the message of \<open>e\<close>. The jobs are those it started with.
\<close>

theorem failed_invocation_keeps_jobs:
  "(hostApiKey host \<noteq> None \<and> hostApiKey host \<noteq> Some []
      \<and> scanJobs host SIMULATE None = Inl e \<longrightarrow>
      handleSimulateScan host s
        = s \<lparr> isScanning := False,
              logs := (js ''['' @ hostClock host 2 @ js ''] ''
                         @ js ''ERR: Scan failed. '' @ errorMessage e)
                      # take 49 (logs
                          (addLog (hostClock host 1)
                             (js ''Targeting sources: Platsbanken, LinkedIn, Indeed...'')
                             (addLog (hostClock host 0)
                                (js ''Initiating market scan for current month...'') s))),
              invocations := Suc (invocations s) \<rparr>
      \<and> jobs (handleSimulateScan host s) = jobs s)
   \<and> (trim (analyzeText s) \<noteq> []
      \<and> scanJobs host ANALYZE (Some (analyzeText s)) = Inl e \<longrightarrow>
      handleAnalyzeText host s
        = s \<lparr> isScanning := False,
              logs := (js ''['' @ hostClock host 1 @ js ''] ''
                         @ js ''ERR: Analysis failed. '' @ errorMessage e)
                      # take 49 (logs
                          (addLog (hostClock host 0) (js ''Analyzing raw job description...'') s)),
              invocations := Suc (invocations s) \<rparr>
      \<and> jobs (handleAnalyzeText host s) = jobs s)"
proof -
  have scan: "handleSimulateScan host s
        = s \<lparr> isScanning := False,
              logs := (js ''['' @ hostClock host 2 @ js ''] ''
                         @ js ''ERR: Scan failed. '' @ errorMessage e)
                      # take 49 (logs
                          (addLog (hostClock host 1)
                             (js ''Targeting sources: Platsbanken, LinkedIn, Indeed...'')
                             (addLog (hostClock host 0)
                                (js ''Initiating market scan for current month...'') s))),
              invocations := Suc (invocations s) \<rparr>"
    if "hostApiKey host \<noteq> None" "hostApiKey host \<noteq> Some []"
       "scanJobs host SIMULATE None = Inl e"
  proof -
    have key: "\<not> (hostApiKey host = None \<or> hostApiKey host = Some [])"
      using that by blast
    show ?thesis
      by (simp only: handleSimulateScan_def key if_False Let_def that(3))
         (simp add: addLog_def)
  qed
  have analyze: "handleAnalyzeText host s
        = s \<lparr> isScanning := False,
              logs := (js ''['' @ hostClock host 1 @ js ''] ''
                         @ js ''ERR: Analysis failed. '' @ errorMessage e)
                      # take 49 (logs
                          (addLog (hostClock host 0) (js ''Analyzing raw job description...'') s)),
              invocations := Suc (invocations s) \<rparr>"
    if "trim (analyzeText s) \<noteq> []" "scanJobs host ANALYZE (Some (analyzeText s)) = Inl e"
    using that by (simp add: handleAnalyzeText_def addLog_def Let_def)
  show ?thesis
  proof (intro conjI impI)
    assume a: "hostApiKey host \<noteq> None \<and> hostApiKey host \<noteq> Some []
      \<and> scanJobs host SIMULATE None = Inl e"
    then show "handleSimulateScan host s
        = s \<lparr> isScanning := False,
              logs := (js ''['' @ hostClock host 2 @ js ''] ''
                         @ js ''ERR: Scan failed. '' @ errorMessage e)
                      # take 49 (logs
                          (addLog (hostClock host 1)
                             (js ''Targeting sources: Platsbanken, LinkedIn, Indeed...'')
                             (addLog (hostClock host 0)
                                (js ''Initiating market scan for current month...'') s))),
              invocations := Suc (invocations s) \<rparr>"
      using scan by blast
    from a have "jobs (handleSimulateScan host s) = jobs (s \<lparr> isScanning := False,
              logs := (js ''['' @ hostClock host 2 @ js ''] ''
                         @ js ''ERR: Scan failed. '' @ errorMessage e)
                      # take 49 (logs
                          (addLog (hostClock host 1)
                             (js ''Targeting sources: Platsbanken, LinkedIn, Indeed...'')
                             (addLog (hostClock host 0)
                                (js ''Initiating market scan for current month...'') s))),
              invocations := Suc (invocations s) \<rparr>)"
      using scan by simp
    then show "jobs (handleSimulateScan host s) = jobs s" by simp
  next
    assume b: "trim (analyzeText s) \<noteq> []
      \<and> scanJobs host ANALYZE (Some (analyzeText s)) = Inl e"
    then show "handleAnalyzeText host s
        = s \<lparr> isScanning := False,
              logs := (js ''['' @ hostClock host 1 @ js ''] ''
                         @ js ''ERR: Analysis failed. '' @ errorMessage e)
                      # take 49 (logs
                          (addLog (hostClock host 0) (js ''Analyzing raw job description...'') s)),
              invocations := Suc (invocations s) \<rparr>"
      using analyze by blast
    from b have "jobs (handleAnalyzeText host s) = jobs (s \<lparr> isScanning := False,
              logs := (js ''['' @ hostClock host 1 @ js ''] ''
                         @ js ''ERR: Analysis failed. '' @ errorMessage e)
                      # take 49 (logs
                          (addLog (hostClock host 0) (js ''Analyzing raw job description...'') s)),
              invocations := Suc (invocations s) \<rparr>)"
      using analyze by simp
    then show "jobs (handleAnalyzeText host s) = jobs s" by simp
  qed
qed

theorem failed_invocation_keeps_jobs_witness:
  "jobs (handleSimulateScan (exampleHost (Inl (ErrorObject (js ''quota exceeded'')))) idleSession)
     = jobs idleSession
   \<and> logs (handleSimulateScan (exampleHost (Inl (ErrorObject (js ''quota exceeded'')))) idleSession)
     = [js ''[12:00:00] ERR: Scan failed. quota exceeded'',
        js ''[12:00:00] Targeting sources: Platsbanken, LinkedIn, Indeed...'',
        js ''[12:00:00] Initiating market scan for current month...'']
   \<and> jobs (handleAnalyzeText (exampleHost (Inl OtherValue))
             (idleSession \<lparr> analyzeText := js ''Data Engineer at Acme'' \<rparr>))
     = jobs idleSession
   \<and> logs (handleAnalyzeText (exampleHost (Inl OtherValue))
             (idleSession \<lparr> analyzeText := js ''Data Engineer at Acme'' \<rparr>))
     = [js ''[12:00:00] ERR: Analysis failed. Unknown error'',
        js ''[12:00:00] Analyzing raw job description...'']"
proof -
  let ?h = "exampleHost (Inl (ErrorObject (js ''quota exceeded'')))"
  let ?g = "exampleHost (Inl OtherValue)"
  let ?s = "idleSession \<lparr> analyzeText := js ''Data Engineer at Acme'' \<rparr>"
  have key: "hostApiKey ?h \<noteq> None \<and> hostApiKey ?h \<noteq> Some []"
    by (simp add: exampleHost_def js_def)
  have fail: "scanJobs ?h SIMULATE None = Inl (ErrorObject (js ''quota exceeded''))"
    by (simp add: session_eval js_def)
  have filled: "trim (analyzeText ?s) \<noteq> []"
    by (simp add: trim_def js_def isWhiteSpace_def)
  have fail': "scanJobs ?g ANALYZE (Some (analyzeText ?s)) = Inl OtherValue"
    by (simp add: session_eval js_def)
  have a: "handleSimulateScan ?h idleSession
        = idleSession \<lparr> isScanning := False,
              logs := (js ''['' @ hostClock ?h 2 @ js ''] ''
                         @ js ''ERR: Scan failed. '' @ errorMessage (ErrorObject (js ''quota exceeded'')))
                      # take 49 (logs
                          (addLog (hostClock ?h 1)
                             (js ''Targeting sources: Platsbanken, LinkedIn, Indeed...'')
                             (addLog (hostClock ?h 0)
                                (js ''Initiating market scan for current month...'') idleSession))),
              invocations := Suc (invocations idleSession) \<rparr>
      \<and> jobs (handleSimulateScan ?h idleSession) = jobs idleSession"
    using failed_invocation_keeps_jobs [of ?h "ErrorObject (js ''quota exceeded'')" idleSession]
      key fail by blast
  have b: "handleAnalyzeText ?g ?s
        = ?s \<lparr> isScanning := False,
              logs := (js ''['' @ hostClock ?g 1 @ js ''] ''
                         @ js ''ERR: Analysis failed. '' @ errorMessage OtherValue)
                      # take 49 (logs
                          (addLog (hostClock ?g 0) (js ''Analyzing raw job description...'') ?s)),
              invocations := Suc (invocations ?s) \<rparr>
      \<and> jobs (handleAnalyzeText ?g ?s) = jobs ?s"
    using failed_invocation_keeps_jobs [of ?g OtherValue ?s] filled fail' by blast
  have la: "logs (handleSimulateScan ?h idleSession)
     = [js ''[12:00:00] ERR: Scan failed. quota exceeded'',
        js ''[12:00:00] Targeting sources: Platsbanken, LinkedIn, Indeed...'',
        js ''[12:00:00] Initiating market scan for current month...'']"
    by (simp only: conjunct1 [OF a]) (simp add: addLog_def exampleHost_def idleSession_def js_def)
  have lb: "logs (handleAnalyzeText ?g ?s)
     = [js ''[12:00:00] ERR: Analysis failed. Unknown error'',
        js ''[12:00:00] Analyzing raw job description...'']"
    by (simp only: conjunct1 [OF b]) (simp add: addLog_def exampleHost_def idleSession_def js_def)
  show ?thesis using a b la lb by simp
qed

text \<open>\<open>trim\<close> leaves nothing exactly when the text is empty or all white space.\<close>

lemma trim_empty_iff: "trim t = [] \<longleftrightarrow> list_all isWhiteSpace t"
proof
  assume "trim t = []"
  then have "dropWhile isWhiteSpace (rev (dropWhile isWhiteSpace t)) = []"
    by (simp add: trim_def)
  then have "\<forall>c\<in>set (dropWhile isWhiteSpace t). isWhiteSpace c"
    by (simp add: dropWhile_eq_Nil_conv)
  then have "dropWhile isWhiteSpace t = []"
    by (metis hd_dropWhile hd_in_set)
  then show "list_all isWhiteSpace t"
    by (simp add: dropWhile_eq_Nil_conv list_all_iff)
next
  assume "list_all isWhiteSpace t"
  then have d: "dropWhile isWhiteSpace t = []"
    by (simp add: dropWhile_eq_Nil_conv list_all_iff)
  show "trim t = []" unfolding trim_def d by simp
qed

text \<open>
  C10. When the analysis text is empty or consists of white space only, \<open>handleAnalyzeText\<close>
  returns the session as it found it: same jobs, same log, same busy flag, no call of
  \<open>scanJobs\<close>. When there is text and the collaborator answers with no record, the handler
  does log: the start line and the "rejected" line.
\<close>

theorem blank_analysis_is_noop:
  "(list_all isWhiteSpace (analyzeText s) \<longrightarrow> handleAnalyzeText host s = s)
   \<and> (\<not> list_all isWhiteSpace (analyzeText s)
        \<and> scanJobs host ANALYZE (Some (analyzeText s)) = Inr [] \<longrightarrow>
        handleAnalyzeText host s
          = s \<lparr> isScanning := False,
                logs := (js ''['' @ hostClock host 1 @ js ''] ''
                           @ js ''Analysis complete. Role rejected (Score < 60 or Non-Sweden/Old).'')
                        # take 49 ((js ''['' @ hostClock host 0 @ js ''] ''
                                     @ js ''Analyzing raw job description...'')
                                   # take 49 (logs s)),
                invocations := Suc (invocations s) \<rparr>)"
  by (simp add: handleAnalyzeText_def trim_empty_iff addLog_def Let_def)

theorem blank_analysis_is_noop_witness:
  "handleAnalyzeText (exampleHost (Inr (Some (js ''[]''))))
      (idleSession \<lparr> analyzeText := js ''   '' \<rparr>)
     = idleSession \<lparr> analyzeText := js ''   '' \<rparr>
   \<and> logs (handleAnalyzeText (exampleHost (Inr (Some (js ''[]''))))
             (idleSession \<lparr> analyzeText := js ''Data Engineer at Acme'' \<rparr>))
     = [js ''[12:00:00] Analysis complete. Role rejected (Score < 60 or Non-Sweden/Old).'',
        js ''[12:00:00] Analyzing raw job description...'']"
proof -
  let ?h = "exampleHost (Inr (Some (js ''[]'')))"
  let ?blank = "idleSession \<lparr> analyzeText := js ''   '' \<rparr>"
  let ?s = "idleSession \<lparr> analyzeText := js ''Data Engineer at Acme'' \<rparr>"
  have ws: "list_all isWhiteSpace (analyzeText ?blank)"
    by (simp add: js_def isWhiteSpace_def)
  have filled: "\<not> list_all isWhiteSpace (analyzeText ?s)"
    by (simp add: js_def isWhiteSpace_def)
  have none: "scanJobs ?h ANALYZE (Some (analyzeText ?s)) = Inr []"
    by (simp add: session_eval js_def)
  have a: "handleAnalyzeText ?h ?blank = ?blank"
    using blank_analysis_is_noop [of ?blank ?h] ws by blast
  have b: "handleAnalyzeText ?h ?s
          = ?s \<lparr> isScanning := False,
                logs := (js ''['' @ hostClock ?h 1 @ js ''] ''
                           @ js ''Analysis complete. Role rejected (Score < 60 or Non-Sweden/Old).'')
                        # take 49 ((js ''['' @ hostClock ?h 0 @ js ''] ''
                                     @ js ''Analyzing raw job description...'')
                                   # take 49 (logs ?s)),
                invocations := Suc (invocations ?s) \<rparr>"
    using blank_analysis_is_noop [of ?s ?h] filled none by blast
  have "logs (handleAnalyzeText ?h ?s)
     = [js ''[12:00:00] Analysis complete. Role rejected (Score < 60 or Non-Sweden/Old).'',
        js ''[12:00:00] Analyzing raw job description...'']"
    by (simp only: b) (simp add: exampleHost_def idleSession_def js_def)
  then show ?thesis using a by simp
qed


section \<open>Malformed responses\<close>

text \<open>
  C9 (as amended). With a credential present: a non-empty response text that \<open>JSON.parse\<close>
  rejects makes \<open>scanJobs\<close> throw the parser's error, just as a failure of the call makes it
  throw that failure; a response with no text or with the empty text gives the empty result
  and no error.
\<close>

theorem malformed_response_is_fatal:
  assumes "hostApiKey host \<noteq> None" and "hostApiKey host \<noteq> Some []"
  shows "(hostGenerateContent host mode inputText = Inr (Some text) \<and> text \<noteq> []
            \<and> hostParse host text = Inl e \<longrightarrow>
          scanJobs host mode inputText = Inl e)
       \<and> (hostGenerateContent host mode inputText = Inl e \<longrightarrow>
          scanJobs host mode inputText = Inl e)
       \<and> (hostGenerateContent host mode inputText = Inr None
            \<or> hostGenerateContent host mode inputText = Inr (Some []) \<longrightarrow>
          scanJobs host mode inputText = Inr [])"
proof -
  have key: "\<not> (hostApiKey host = None \<or> hostApiKey host = Some [])"
    using assms by blast
  show ?thesis
    by (simp only: scanJobs_def key if_False) auto
qed

theorem malformed_response_is_fatal_witness:
  "scanJobs (exampleHost (Inr (Some (js ''['')))) SIMULATE None
     = Inl (ErrorObject (js ''Unexpected end of JSON input''))
   \<and> scanJobs (exampleHost (Inl (ErrorObject (js ''quota exceeded'')))) SIMULATE None
     = Inl (ErrorObject (js ''quota exceeded''))
   \<and> scanJobs (exampleHost (Inr None)) SIMULATE None = Inr []"
proof -
  let ?h = "exampleHost (Inr (Some (js ''['')))"
  let ?g = "exampleHost (Inl (ErrorObject (js ''quota exceeded'')))"
  let ?n = "exampleHost (Inr None)"
  have key: "hostApiKey (exampleHost r) \<noteq> None" "hostApiKey (exampleHost r) \<noteq> Some []" for r
    by (simp_all add: exampleHost_def js_def)
  have h: "hostGenerateContent ?h SIMULATE None = Inr (Some (js ''['')) \<and> js ''['' \<noteq> []
      \<and> hostParse ?h (js ''['') = Inl (ErrorObject (js ''Unexpected end of JSON input''))"
    by (simp add: exampleHost_def exampleParse_def js_def)
  have g: "hostGenerateContent ?g SIMULATE None = Inl (ErrorObject (js ''quota exceeded''))"
    by (simp add: exampleHost_def)
  have n: "hostGenerateContent ?n SIMULATE None = Inr None"
    by (simp add: exampleHost_def)
  show ?thesis
    using malformed_response_is_fatal [OF key, of "Inr (Some (js ''[''))" SIMULATE None "js ''[''"
        "ErrorObject (js ''Unexpected end of JSON input'')"] h
      malformed_response_is_fatal [OF key, of "Inl (ErrorObject (js ''quota exceeded''))" SIMULATE None
        "[]" "ErrorObject (js ''quota exceeded'')"] g
      malformed_response_is_fatal [OF key, of "Inr None" SIMULATE None "[]" OtherValue] n
    by blast
qed

text \<open>
  C9 as stated fails for the empty text: it is not JSON (the parser rejects it), yet
  \<open>scanJobs\<close> returns the empty array instead of throwing, because of its guard
  \<open>if (!text) return []\<close>.
\<close>

theorem empty_text_is_not_an_error:
  "hostParse (exampleHost (Inr (Some []))) [] = Inl (ErrorObject (js ''Unexpected end of JSON input''))
   \<and> scanJobs (exampleHost (Inr (Some []))) SIMULATE None = Inr []"
  by (simp add: session_eval js_def)

end
